theory Spec2Isabelle
  imports Main
begin

section \<open>The forecast service of \<^verbatim>\<open>src/Develop/src/server.ts\<close>\<close>

text \<open>
  The service is one Express route, \<^verbatim>\<open>POST /forecast\<close>, over a hosted language model.
  The embedding follows the file top to bottom: the start-up code (environment, model
  configuration, schema, prompt template), \<^verbatim>\<open>promptFunc\<close>, and the route handler.
  Everything the file does beyond computing a value is written out: a thrown value is
  the left summand of a sum, \<^verbatim>\<open>console.error\<close>, the call of the model and the bytes that
  leave for the client are events appended to a trace, and the response object carries
  its status code and whether it has been sent.
\<close>

subsection \<open>JavaScript values and thrown values\<close>

text \<open>
  The values the handler touches are what \<^verbatim>\<open>express.json()\<close> and \<^verbatim>\<open>JSON.parse\<close> produce,
  plus \<^verbatim>\<open>undefined\<close> (a property that is not there). Numbers are kept as integers: no
  branch of the file looks at a number beyond its truthiness.
\<close>

datatype jsval =
    Undefined
  | Null
  | Bool bool
  | Num int
  | Str string
  | Arr "jsval list"
  | Obj "(string \<times> jsval) list"

text \<open>
  A thrown value is either an instance of \<^verbatim>\<open>Error\<close> (with its message) or anything else;
  the handler's \<^verbatim>\<open>catch\<close> tells the two apart with \<^verbatim>\<open>instanceof Error\<close>.
\<close>

datatype thrown = ErrorObj string | OtherThrown jsval

text \<open>The truthiness that \<^verbatim>\<open>!location\<close> tests.\<close>

fun truthy :: "jsval \<Rightarrow> bool" where
  "truthy Undefined = False"
| "truthy Null = False"
| "truthy (Bool b) = b"
| "truthy (Num n) = (n \<noteq> 0)"
| "truthy (Str s) = (s \<noteq> [])"
| "truthy (Arr xs) = True"
| "truthy (Obj kvs) = True"

fun is_Str :: "jsval \<Rightarrow> bool" where
  "is_Str (Str s) = True"
| "is_Str v = False"

subsection \<open>The platform outside the file\<close>

text \<open>
  \<^verbatim>\<open>JSON.parse\<close>, \<^verbatim>\<open>JSON.stringify\<close> and the library's rendering of a schema as format
  instructions are not code of this file; they are parameters of the embedding.
  \<^verbatim>\<open>JSON.parse\<close> either returns a value or throws.
\<close>

datatype ztype = ZString

record zobject =
  shape :: "(string \<times> ztype) list"
  description :: string

record runtime =
  JSON_parse :: "string \<Rightarrow> thrown + jsval"
  JSON_stringify :: "jsval \<Rightarrow> string"
  getFormatInstructions :: "zobject \<Rightarrow> string"

record model_config =
  temperature :: int
  openAIApiKey :: string
  modelName :: string

text \<open>
  The hosted model: given the configuration of the client and a prompt, the call
  \<^verbatim>\<open>model.invoke(prompt)\<close> returns a completion or throws.
\<close>

type_synonym provider = "model_config \<Rightarrow> string \<Rightarrow> thrown + jsval"

subsection \<open>Events and the response object\<close>

datatype logarg = Text string | Thrown thrown

text \<open>
  \<^verbatim>\<open>Send code v\<close> is a response leaving for the client: the status code and the value
  handed to \<^verbatim>\<open>res.json\<close>, which Express serialises.
\<close>

datatype event =
    ConsoleError "logarg list"
  | ConsoleLog "logarg list"
  | Invoke model_config string
  | Send nat jsval

record response =
  statusCode :: nat
  headersSent :: bool

record hstate =
  res :: response
  trace :: "event list"

definition console_error :: "logarg list \<Rightarrow> hstate \<Rightarrow> hstate" where
  "console_error args st = st\<lparr>trace := trace st @ [ConsoleError args]\<rparr>"

definition res_status :: "nat \<Rightarrow> hstate \<Rightarrow> hstate" where
  "res_status code st = st\<lparr>res := (res st)\<lparr>statusCode := code\<rparr>\<rparr>"

text \<open>
  \<^verbatim>\<open>res.json(body)\<close> writes the status line and the body and ends the response. On a
  response that has already been sent it throws (Node refuses to set a header after the
  headers have left), and nothing more reaches the client.
\<close>

definition res_json :: "jsval \<Rightarrow> hstate \<Rightarrow> (thrown + unit) \<times> hstate" where
  "res_json b st =
     (if headersSent (res st)
      then (Inl (ErrorObj ''Cannot set headers after they are sent to the client''), st)
      else (Inr (),
            st\<lparr>res := (res st)\<lparr>headersSent := True\<rparr>,
               trace := trace st @ [Send (statusCode (res st)) b]\<rparr>))"

definition fresh :: hstate where
  "fresh = \<lparr>res = \<lparr>statusCode = 200, headersSent = False\<rparr>, trace = []\<rparr>"

subsection \<open>Prompt templates\<close>

text \<open>
  \<^verbatim>\<open>PromptTemplate\<close> is the class of \<^verbatim>\<open>@langchain/core/prompts\<close> that the file imports,
  not code of the repository. What follows is its f-string rendering (the library's
  \<^verbatim>\<open>parseFString\<close> and \<^verbatim>\<open>interpolateFString\<close>): the template is cut into literal
  pieces and \<^verbatim>\<open>{name}\<close> slots (\<^verbatim>\<open>{{\<close> and \<^verbatim>\<open>}}\<close> are escaped braces), and each slot is
  replaced by the value of that name among the partial variables merged with the
  values of the call; a value that is not a string goes through \<^verbatim>\<open>JSON.stringify\<close>, and
  \<^verbatim>\<open>undefined\<close> is concatenated as the text \<^verbatim>\<open>undefined\<close>. A name with no value throws.
  Values whose name has no slot are not used.
\<close>

datatype node = Literal string | Variable string

definition is_brace :: "char \<Rightarrow> bool" where
  "is_brace c = (c = CHR ''{'' \<or> c = CHR ''}'')"

function parseFString :: "string \<Rightarrow> thrown + node list" where
  "parseFString [] = Inr []"
| "parseFString (c # cs) =
     (if c = CHR ''{'' \<and> cs \<noteq> [] \<and> hd cs = CHR ''{''
      then map_sum id (\<lambda>ns. Literal ''{'' # ns) (parseFString (tl cs))
      else if c = CHR ''}'' \<and> cs \<noteq> [] \<and> hd cs = CHR ''}''
      then map_sum id (\<lambda>ns. Literal ''}'' # ns) (parseFString (tl cs))
      else if c = CHR ''{''
      then (if dropWhile (\<lambda>x. x \<noteq> CHR ''}'') cs = []
            then Inl (ErrorObj ''Unclosed '{' in template.'')
            else map_sum id (\<lambda>ns. Variable (takeWhile (\<lambda>x. x \<noteq> CHR ''}'') cs) # ns)
                   (parseFString (tl (dropWhile (\<lambda>x. x \<noteq> CHR ''}'') cs))))
      else if c = CHR ''}''
      then Inl (ErrorObj ''Single '}' in template.'')
      else map_sum id (\<lambda>ns. Literal (c # takeWhile (\<lambda>x. \<not> is_brace x) cs) # ns)
             (parseFString (dropWhile (\<lambda>x. \<not> is_brace x) cs)))"
  by pat_completeness auto
termination
  apply (relation "measure length")
      apply (simp_all add: less_Suc_eq_le length_dropWhile_le)
  apply (rule le_trans [OF diff_le_self length_dropWhile_le])
  done

definition stringValue :: "runtime \<Rightarrow> jsval \<Rightarrow> string" where
  "stringValue rt v =
     (case v of Str s \<Rightarrow> s | Undefined \<Rightarrow> ''undefined'' | _ \<Rightarrow> JSON_stringify rt v)"

fun interpolate :: "runtime \<Rightarrow> (string \<times> jsval) list \<Rightarrow> node list \<Rightarrow> string \<Rightarrow> thrown + string" where
  "interpolate rt values [] acc = Inr acc"
| "interpolate rt values (Literal text # ns) acc = interpolate rt values ns (acc @ text)"
| "interpolate rt values (Variable name # ns) acc =
     (case map_of values name of
        None \<Rightarrow> Inl (ErrorObj (''(f-string) Missing value for input '' @ name))
      | Some v \<Rightarrow> interpolate rt values ns (acc @ stringValue rt v))"

definition interpolateFString :: "runtime \<Rightarrow> string \<Rightarrow> (string \<times> jsval) list \<Rightarrow> thrown + string" where
  "interpolateFString rt tmpl values =
     (case parseFString tmpl of
        Inl e \<Rightarrow> Inl e
      | Inr ns \<Rightarrow> interpolate rt values ns [])"

record prompt_template =
  template :: string
  inputVariables :: "string list"
  partialVariables :: "(string \<times> jsval) list"

text \<open>\<^verbatim>\<open>format(values)\<close>: the values of the call override the partial variables.\<close>

definition format :: "runtime \<Rightarrow> prompt_template \<Rightarrow> (string \<times> jsval) list \<Rightarrow> thrown + string" where
  "format rt pt values = interpolateFString rt (template pt) (values @ partialVariables pt)"

subsection \<open>Start-up (lines 9 to 52 and 103 to 105)\<close>

record env =
  PORT :: "string option"
  OPENAI_API_KEY :: "string option"

datatype port = PortStr string | PortNum nat

text \<open>The schema handed to \<^verbatim>\<open>StructuredOutputParser.fromZodSchema\<close>.\<close>

definition parser :: zobject where
  "parser =
     \<lparr>shape = [(''day1'', ZString), (''day2'', ZString), (''day3'', ZString),
               (''day4'', ZString), (''day5'', ZString)],
      description = ''A JSON object with the forecast for the next 5 days''\<rparr>"

definition template_text :: string where
  \<open>template_text = ''You are a sports announcer. Provide an exciting and energetic play-by-play of the weather forecast for {location}. Make it sound like a thrilling sports commentary! Return the forcast as a JSON object with each day forecast as a property. The keys should be "date-day1", "day-of-the-week-day1", "day1", "date-day2", "day-of-the-week-day2", "day2", "date-day3", "day-of-the-week-day3", "day3", "date-day4", "day-of-the-week-day4", "day4", "date-day5", "day-of-the-week-day5", "day5". The JSON should be properly formatted. The first day should be today.''\<close>

definition promptTemplate :: "string \<Rightarrow> prompt_template" where
  "promptTemplate formatInstructions =
     \<lparr>template = template_text,
      inputVariables = [''location''],
      partialVariables = [(''format_instructions'', Str formatInstructions)]\<rparr>"

record server =
  port_of :: port
  model :: model_config
  formatInstructions :: string

datatype boot = Exited nat "event list" | Listening server "event list"

definition digit_char :: "nat \<Rightarrow> char" where
  "digit_char n = ''0123456789'' ! n"

fun decimal :: "nat \<Rightarrow> string" where
  "decimal n = (if n < 10 then [digit_char n] else decimal (n div 10) @ [digit_char (n mod 10)])"

fun port_text :: "port \<Rightarrow> string" where
  "port_text (PortStr s) = s"
| "port_text (PortNum n) = decimal n"

text \<open>
  \<^verbatim>\<open>env\<close> is \<^verbatim>\<open>process.env\<close> after \<^verbatim>\<open>dotenv.config()\<close>. An absent or empty
  \<^verbatim>\<open>OPENAI_API_KEY\<close> is falsy: the process logs and exits with code 1 before the
  application, the model or the listener exist.
\<close>

definition startup :: "runtime \<Rightarrow> env \<Rightarrow> boot" where
  "startup rt e =
     (let port = (case PORT e of
                    None \<Rightarrow> PortNum 3001
                  | Some p \<Rightarrow> if p = [] then PortNum 3001 else PortStr p)
      in case OPENAI_API_KEY e of
           None \<Rightarrow> Exited 1 [ConsoleError [Text ''OPENAI_API_KEY is not defined. Exiting...'']]
         | Some apiKey \<Rightarrow>
             if apiKey = []
             then Exited 1 [ConsoleError [Text ''OPENAI_API_KEY is not defined. Exiting...'']]
             else Listening
                    \<lparr>port_of = port,
                     model = \<lparr>temperature = 0, openAIApiKey = apiKey,
                              modelName = ''gpt-3.5-turbo''\<rparr>,
                     formatInstructions = getFormatInstructions rt parser\<rparr>
                    [ConsoleLog [Text (''Server is running on http://localhost:'' @ port_text port)]])"

subsection \<open>\<^verbatim>\<open>promptFunc\<close> (lines 56 to 75)\<close>

text \<open>The body of the \<^verbatim>\<open>try\<close>: format the prompt, call the model, parse a string result.\<close>

definition promptFunc_try ::
  "runtime \<Rightarrow> provider \<Rightarrow> server \<Rightarrow> jsval \<Rightarrow> hstate \<Rightarrow> (thrown + jsval) \<times> hstate" where
  "promptFunc_try rt llm srv input st =
     (case format rt (promptTemplate (formatInstructions srv)) [(''location'', input)] of
        Inl e \<Rightarrow> (Inl e, st)
      | Inr promptInput \<Rightarrow>
          (let st1 = st\<lparr>trace := trace st @ [Invoke (model srv) promptInput]\<rparr>
           in case llm (model srv) promptInput of
                Inl e \<Rightarrow> (Inl e, st1)
              | Inr r \<Rightarrow>
                  (case r of
                     Str s \<Rightarrow> (JSON_parse rt s, st1)
                   | _ \<Rightarrow> (Inr r, st1))))"

text \<open>The \<^verbatim>\<open>catch\<close> logs whatever was thrown and throws it again.\<close>

definition promptFunc ::
  "runtime \<Rightarrow> provider \<Rightarrow> server \<Rightarrow> jsval \<Rightarrow> hstate \<Rightarrow> (thrown + jsval) \<times> hstate" where
  "promptFunc rt llm srv input st =
     (case promptFunc_try rt llm srv input st of
        (Inl error, st1) \<Rightarrow> (Inl error, console_error [Text ''Error:'', Thrown error] st1)
      | (Inr r, st1) \<Rightarrow> (Inr r, st1))"

subsection \<open>The route handler (lines 80 to 101)\<close>

record request =
  body :: jsval

text \<open>
  \<^verbatim>\<open>req.body.location\<close>: reading a property of \<^verbatim>\<open>undefined\<close> or \<^verbatim>\<open>null\<close> throws a
  \<^verbatim>\<open>TypeError\<close>; an object (its keys distinct, as a parsed body has them) gives the
  property or \<^verbatim>\<open>undefined\<close>; an array or a primitive has no property of that name.
\<close>

fun body_location :: "jsval \<Rightarrow> thrown + jsval" where
  \<open>body_location Undefined =
     Inl (ErrorObj ''Cannot read properties of undefined (reading 'location')'')\<close>
| \<open>body_location Null =
     Inl (ErrorObj ''Cannot read properties of null (reading 'location')'')\<close>
| "body_location (Obj kvs) =
     (case map_of kvs ''location'' of None \<Rightarrow> Inr Undefined | Some v \<Rightarrow> Inr v)"
| "body_location v = Inr Undefined"

definition missing_location_body :: jsval where
  "missing_location_body = Obj [(''error'', Str ''Please provide a location in the request body.'')]"

definition internal_error_body :: jsval where
  "internal_error_body = Obj [(''error'', Str ''Internal Server Error'')]"

text \<open>
  The \<^verbatim>\<open>try\<close> block. The branch for a falsy location sends the 400 response and falls
  through: there is no \<^verbatim>\<open>return\<close> after it, so \<^verbatim>\<open>promptFunc\<close> runs in every case.
\<close>

definition handler_try :: "runtime \<Rightarrow> provider \<Rightarrow> server \<Rightarrow> request \<Rightarrow> hstate \<Rightarrow> (thrown + unit) \<times> hstate" where
  "handler_try rt llm srv req st =
     (case body_location (body req) of
        Inl e \<Rightarrow> (Inl e, st)
      | Inr location \<Rightarrow>
          (case (if \<not> truthy location
                 then res_json missing_location_body (res_status 400 st)
                 else (Inr (), st)) of
             (Inl e, st1) \<Rightarrow> (Inl e, st1)
           | (Inr u, st1) \<Rightarrow>
               (case promptFunc rt llm srv location st1 of
                  (Inl e, st2) \<Rightarrow> (Inl e, st2)
                | (Inr result, st2) \<Rightarrow> res_json (Obj [(''result'', result)]) st2)))"

definition handler_catch :: "thrown \<Rightarrow> hstate \<Rightarrow> (thrown + unit) \<times> hstate" where
  "handler_catch error st =
     (let st1 = (case error of
                   ErrorObj message \<Rightarrow> console_error [Text ''Error:'', Text message] st
                 | OtherThrown v \<Rightarrow> st)
      in res_json internal_error_body (res_status 500 st1))"

text \<open>
  The handler on a fresh response. The left summand of the result is a value thrown out
  of the \<^verbatim>\<open>catch\<close> block itself, which rejects the handler's promise.
\<close>

definition forecast :: "runtime \<Rightarrow> provider \<Rightarrow> server \<Rightarrow> request \<Rightarrow> (thrown + unit) \<times> hstate" where
  "forecast rt llm srv req =
     (case handler_try rt llm srv req fresh of
        (Inl error, st) \<Rightarrow> handler_catch error st
      | (Inr u, st) \<Rightarrow> (Inr u, st))"

subsection \<open>What an observer sees\<close>

fun sends :: "event list \<Rightarrow> (nat \<times> jsval) list" where
  "sends [] = []"
| "sends (Send code b # es) = (code, b) # sends es"
| "sends (e # es) = sends es"

fun invocations :: "event list \<Rightarrow> (model_config \<times> string) list" where
  "invocations [] = []"
| "invocations (Invoke cfg p # es) = (cfg, p) # invocations es"
| "invocations (e # es) = invocations es"

fun errors_logged :: "event list \<Rightarrow> logarg list list" where
  "errors_logged [] = []"
| "errors_logged (ConsoleError args # es) = args # errors_logged es"
| "errors_logged (e # es) = errors_logged es"

text \<open>The events of one request, and the response the client receives.\<close>

definition events :: "runtime \<Rightarrow> provider \<Rightarrow> server \<Rightarrow> request \<Rightarrow> event list" where
  "events rt llm srv req = trace (snd (forecast rt llm srv req))"

definition client_response :: "runtime \<Rightarrow> provider \<Rightarrow> server \<Rightarrow> request \<Rightarrow> (nat \<times> jsval) option" where
  "client_response rt llm srv req =
     (case sends (events rt llm srv req) of [] \<Rightarrow> None | r # rs \<Rightarrow> Some r)"

text \<open>
  The process: it starts, and if it listens, each arriving request (with whatever the
  provider answers at that moment) runs the handler against the one server value built
  at start-up. The result is the exit code (if the process exited), the start-up log and
  the events of each request served.
\<close>

definition process_run ::
  "runtime \<Rightarrow> env \<Rightarrow> (provider \<times> request) list \<Rightarrow> nat option \<times> event list \<times> event list list" where
  "process_run rt e arrivals =
     (case startup rt e of
        Exited code log \<Rightarrow> (Some code, log, [])
      | Listening srv log \<Rightarrow> (None, log, map (\<lambda>(llm, req). events rt llm srv req) arrivals))"

subsection \<open>The schema as a predicate\<close>

text \<open>
  What the object schema of lines 31 to 37 accepts: an object in which every key of the
  shape is present with a string value (further keys are tolerated). The file never
  applies it; it is here to say what the handler does not check.
\<close>

fun satisfies :: "zobject \<Rightarrow> jsval \<Rightarrow> bool" where
  "satisfies z (Obj kvs) =
     list_all (\<lambda>(k, t). case map_of kvs k of Some (Str s) \<Rightarrow> True | _ \<Rightarrow> False) (shape z)"
| "satisfies z v = False"

text \<open>An object whose key set is exactly the given one, every value a string.\<close>

fun has_exactly_keys :: "string list \<Rightarrow> jsval \<Rightarrow> bool" where
  "has_exactly_keys ks (Obj kvs) =
     (set (map fst kvs) = set ks \<and> list_all (\<lambda>(k, v). is_Str v) kvs)"
| "has_exactly_keys ks v = False"

definition five_keys :: "string list" where
  "five_keys = map fst (shape parser)"

text \<open>The fifteen keys that the prompt text asks the model for.\<close>

definition full_keys :: "string list" where
  "full_keys =
     [''date-day1'', ''day-of-the-week-day1'', ''day1'',
      ''date-day2'', ''day-of-the-week-day2'', ''day2'',
      ''date-day3'', ''day-of-the-week-day3'', ''day3'',
      ''date-day4'', ''day-of-the-week-day4'', ''day4'',
      ''date-day5'', ''day-of-the-week-day5'', ''day5'']"

subsection \<open>Derived descriptions of the prompt and of the pipeline\<close>

text \<open>The template text before and after its one slot.\<close>

definition prompt_prefix :: string where
  "prompt_prefix = ''You are a sports announcer. Provide an exciting and energetic play-by-play of the weather forecast for ''"

definition prompt_suffix :: string where
  \<open>prompt_suffix = ''. Make it sound like a thrilling sports commentary! Return the forcast as a JSON object with each day forecast as a property. The keys should be "date-day1", "day-of-the-week-day1", "day1", "date-day2", "day-of-the-week-day2", "day2", "date-day3", "day-of-the-week-day3", "day3", "date-day4", "day-of-the-week-day4", "day4", "date-day5", "day-of-the-week-day5", "day5". The JSON should be properly formatted. The first day should be today.''\<close>

definition rendered_prompt :: "runtime \<Rightarrow> jsval \<Rightarrow> string" where
  "rendered_prompt rt location = prompt_prefix @ stringValue rt location @ prompt_suffix"

text \<open>
  What \<^verbatim>\<open>promptFunc\<close> returns or throws once the prompt is rendered: the provider's
  error, the parse of a string completion, or a completion that is not a string as it is.
\<close>

definition pipeline_result :: "runtime \<Rightarrow> provider \<Rightarrow> server \<Rightarrow> jsval \<Rightarrow> thrown + jsval" where
  "pipeline_result rt llm srv location =
     (case llm (model srv) (rendered_prompt rt location) of
        Inl e \<Rightarrow> Inl e
      | Inr r \<Rightarrow> (case r of Str s \<Rightarrow> JSON_parse rt s | _ \<Rightarrow> Inr r))"

text \<open>What the handler's \<^verbatim>\<open>catch\<close> logs for a thrown value.\<close>

definition catch_log :: "thrown \<Rightarrow> event list" where
  "catch_log e =
     (case e of
        ErrorObj m \<Rightarrow> [ConsoleError [Text ''Error:'', Text m]]
      | OtherThrown v \<Rightarrow> [])"

definition headers_sent_message :: string where
  "headers_sent_message = ''Cannot set headers after they are sent to the client''"

subsection \<open>Concrete inputs\<close>

text \<open>
  A runtime for the concrete evaluations below. Its \<^verbatim>\<open>JSON.parse\<close> is given on the three
  JSON texts those evaluations use and rejects the one text that is not JSON; no
  evaluation reaches another text, nor \<^verbatim>\<open>JSON.stringify\<close> (every location used is a
  string or absent).
\<close>

definition forecast_text :: string where
  \<open>forecast_text = ''{"day1":"Sun","day2":"Rain","day3":"Wind","day4":"Snow","day5":"Fog"}''\<close>

definition forecast_value :: jsval where
  "forecast_value =
     Obj [(''day1'', Str ''Sun''), (''day2'', Str ''Rain''), (''day3'', Str ''Wind''),
          (''day4'', Str ''Snow''), (''day5'', Str ''Fog'')]"

definition sample_parse :: "string \<Rightarrow> thrown + jsval" where
  "sample_parse s =
     (if s = ''[]'' then Inr (Arr [])
      else if s = ''{}'' then Inr (Obj [])
      else if s = forecast_text then Inr forecast_value
      else Inl (ErrorObj ''Unexpected token S in JSON at position 0''))"

definition sample_runtime :: runtime where
  "sample_runtime =
     \<lparr>JSON_parse = sample_parse,
      JSON_stringify = (\<lambda>v. ''null''),
      getFormatInstructions = (\<lambda>z. ''Answer with a JSON object that has the keys of the schema.'')\<rparr>"

definition sample_env :: env where
  "sample_env = \<lparr>PORT = None, OPENAI_API_KEY = Some ''sk-test''\<rparr>"

definition no_key_env :: env where
  "no_key_env = \<lparr>PORT = Some ''8080'', OPENAI_API_KEY = None\<rparr>"

definition sample_model :: model_config where
  "sample_model = \<lparr>temperature = 0, openAIApiKey = ''sk-test'', modelName = ''gpt-3.5-turbo''\<rparr>"

definition sample_server :: server where
  "sample_server =
     \<lparr>port_of = PortNum 3001,
      model = sample_model,
      formatInstructions = ''Answer with a JSON object that has the keys of the schema.''\<rparr>"

definition seattle :: request where
  "seattle = \<lparr>body = Obj [(''location'', Str ''Seattle'')]\<rparr>"

definition no_location :: request where
  "no_location = \<lparr>body = Obj []\<rparr>"

definition empty_location :: request where
  "empty_location = \<lparr>body = Obj [(''location'', Str [])]\<rparr>"

text \<open>A provider that answers every prompt with one value, and one that always throws.\<close>

definition llm_returns :: "jsval \<Rightarrow> provider" where
  "llm_returns r = (\<lambda>cfg p. Inr r)"

definition llm_fails :: "thrown \<Rightarrow> provider" where
  "llm_fails e = (\<lambda>cfg p. Inl e)"

section \<open>Properties\<close>

subsection \<open>The prompt\<close>

lemma parse_template:
  "parseFString template_text =
     Inr [Literal prompt_prefix, Variable ''location'', Literal prompt_suffix]"
  by (simp add: template_text_def prompt_prefix_def prompt_suffix_def is_brace_def)

lemma format_prompt:
  "format rt (promptTemplate fi) [(''location'', v)] = Inr (rendered_prompt rt v)"
  by (simp add: format_def promptTemplate_def interpolateFString_def parse_template
        rendered_prompt_def)

subsection \<open>\<^verbatim>\<open>promptFunc\<close>\<close>

lemma promptFunc_try_run:
  "promptFunc_try rt llm srv input st =
     (pipeline_result rt llm srv input,
      st\<lparr>trace := trace st @ [Invoke (model srv) (rendered_prompt rt input)]\<rparr>)"
  by (simp add: promptFunc_try_def format_prompt pipeline_result_def Let_def
        split: sum.splits jsval.splits)

lemma promptFunc_throws:
  "pipeline_result rt llm srv input = Inl e \<Longrightarrow>
   promptFunc rt llm srv input st =
     (Inl e, st\<lparr>trace := trace st @ [Invoke (model srv) (rendered_prompt rt input),
                                      ConsoleError [Text ''Error:'', Thrown e]]\<rparr>)"
  by (simp add: promptFunc_def promptFunc_try_run console_error_def)

lemma promptFunc_returns:
  "pipeline_result rt llm srv input = Inr v \<Longrightarrow>
   promptFunc rt llm srv input st =
     (Inr v, st\<lparr>trace := trace st @ [Invoke (model srv) (rendered_prompt rt input)]\<rparr>)"
  by (simp add: promptFunc_def promptFunc_try_run)

subsection \<open>The events of a request, case by case\<close>

lemma events_unreadable:
  "body_location (body req) = Inl e \<Longrightarrow>
   events rt llm srv req = catch_log e @ [Send 500 internal_error_body]"
  by (simp add: events_def forecast_def handler_try_def handler_catch_def fresh_def
        res_json_def res_status_def console_error_def catch_log_def split: thrown.splits)

lemma events_truthy_returns:
  "body_location (body req) = Inr location \<Longrightarrow> truthy location \<Longrightarrow>
   pipeline_result rt llm srv location = Inr v \<Longrightarrow>
   events rt llm srv req =
     [Invoke (model srv) (rendered_prompt rt location), Send 200 (Obj [(''result'', v)])]"
  by (simp add: events_def forecast_def handler_try_def promptFunc_returns fresh_def
        res_json_def)

lemma events_truthy_throws:
  "body_location (body req) = Inr location \<Longrightarrow> truthy location \<Longrightarrow>
   pipeline_result rt llm srv location = Inl e \<Longrightarrow>
   events rt llm srv req =
     [Invoke (model srv) (rendered_prompt rt location), ConsoleError [Text ''Error:'', Thrown e]]
     @ catch_log e @ [Send 500 internal_error_body]"
  by (simp add: events_def forecast_def handler_try_def promptFunc_throws fresh_def
        handler_catch_def res_json_def res_status_def console_error_def catch_log_def
        split: thrown.splits)

lemma events_falsy_returns:
  "body_location (body req) = Inr location \<Longrightarrow> \<not> truthy location \<Longrightarrow>
   pipeline_result rt llm srv location = Inr v \<Longrightarrow>
   events rt llm srv req =
     [Send 400 missing_location_body, Invoke (model srv) (rendered_prompt rt location),
      ConsoleError [Text ''Error:'', Text headers_sent_message]]"
  by (simp add: events_def forecast_def handler_try_def promptFunc_returns fresh_def
        handler_catch_def res_json_def res_status_def console_error_def
        headers_sent_message_def)

lemma events_falsy_throws:
  "body_location (body req) = Inr location \<Longrightarrow> \<not> truthy location \<Longrightarrow>
   pipeline_result rt llm srv location = Inl e \<Longrightarrow>
   events rt llm srv req =
     [Send 400 missing_location_body, Invoke (model srv) (rendered_prompt rt location),
      ConsoleError [Text ''Error:'', Thrown e]] @ catch_log e"
  by (simp add: events_def forecast_def handler_try_def promptFunc_throws fresh_def
        handler_catch_def res_json_def res_status_def console_error_def catch_log_def
        split: thrown.splits)

text \<open>
  After the 400 response of the falsy branch, every later \<^verbatim>\<open>res.json\<close> throws, the one in
  the \<^verbatim>\<open>catch\<close> block included: the handler's promise is rejected.
\<close>

lemma rejected_falsy:
  "body_location (body req) = Inr location \<Longrightarrow> \<not> truthy location \<Longrightarrow>
   fst (forecast rt llm srv req) = Inl (ErrorObj headers_sent_message)"
  by (cases "pipeline_result rt llm srv location")
     (simp_all add: forecast_def handler_try_def promptFunc_returns promptFunc_throws fresh_def
        handler_catch_def res_json_def res_status_def console_error_def
        headers_sent_message_def split: thrown.splits)

lemma fst_promptFunc:
  "fst (promptFunc rt llm srv input st) = pipeline_result rt llm srv input"
  by (cases "pipeline_result rt llm srv input")
     (simp_all add: promptFunc_throws promptFunc_returns)

subsection \<open>Projections of a trace\<close>

lemma sends_append: "sends (xs @ ys) = sends xs @ sends ys"
  by (induction xs rule: sends.induct) simp_all

lemma invocations_append: "invocations (xs @ ys) = invocations xs @ invocations ys"
  by (induction xs rule: invocations.induct) simp_all

lemma errors_logged_append: "errors_logged (xs @ ys) = errors_logged xs @ errors_logged ys"
  by (induction xs rule: errors_logged.induct) simp_all

lemma sends_catch_log [simp]: "sends (catch_log e) = []"
  by (cases e) (simp_all add: catch_log_def)

lemma invocations_catch_log [simp]: "invocations (catch_log e) = []"
  by (cases e) (simp_all add: catch_log_def)

text \<open>
  Every request whose body can be read calls the model exactly once, with the
  configuration of the server; a request whose body cannot be read never calls it.
\<close>

lemma invocations_events:
  "invocations (events rt llm srv req) =
     (case body_location (body req) of
        Inl e \<Rightarrow> []
      | Inr location \<Rightarrow> [(model srv, rendered_prompt rt location)])"
proof (cases "body_location (body req)")
  case (Inl e)
  then show ?thesis by (simp add: events_unreadable invocations_append)
next
  case (Inr location)
  show ?thesis
  proof (cases "pipeline_result rt llm srv location")
    case thrown: (Inl e)
    show ?thesis
      by (cases "truthy location")
         (simp_all add: Inr events_truthy_throws [OF Inr _ thrown]
            events_falsy_throws [OF Inr _ thrown] invocations_append)
  next
    case returned: (Inr v)
    show ?thesis
      by (cases "truthy location")
         (simp_all add: Inr events_truthy_returns [OF Inr _ returned]
            events_falsy_returns [OF Inr _ returned])
  qed
qed

subsection \<open>The response the client receives, case by case\<close>

lemma response_unreadable:
  "body_location (body req) = Inl e \<Longrightarrow>
   client_response rt llm srv req = Some (500, internal_error_body)"
  by (simp add: client_response_def events_unreadable sends_append)

lemma response_truthy_returns:
  "body_location (body req) = Inr location \<Longrightarrow> truthy location \<Longrightarrow>
   pipeline_result rt llm srv location = Inr v \<Longrightarrow>
   client_response rt llm srv req = Some (200, Obj [(''result'', v)])"
  by (simp add: client_response_def events_truthy_returns)

lemma response_truthy_throws:
  "body_location (body req) = Inr location \<Longrightarrow> truthy location \<Longrightarrow>
   pipeline_result rt llm srv location = Inl e \<Longrightarrow>
   client_response rt llm srv req = Some (500, internal_error_body)"
  by (simp add: client_response_def events_truthy_throws sends_append)

lemma response_falsy:
  "body_location (body req) = Inr location \<Longrightarrow> \<not> truthy location \<Longrightarrow>
   client_response rt llm srv req = Some (400, missing_location_body)"
  by (cases "pipeline_result rt llm srv location")
     (simp_all add: client_response_def events_falsy_throws events_falsy_returns sends_append)

subsection \<open>Start-up\<close>

lemma startup_listening:
  "startup rt e = Listening srv log \<Longrightarrow>
   OPENAI_API_KEY e = Some (openAIApiKey (model srv)) \<and> openAIApiKey (model srv) \<noteq> [] \<and>
   temperature (model srv) = 0 \<and> modelName (model srv) = ''gpt-3.5-turbo''"
  by (auto simp: startup_def Let_def split: option.splits if_splits)

lemma startup_no_key:
  "OPENAI_API_KEY e = None \<Longrightarrow>
   startup rt e = Exited 1 [ConsoleError [Text ''OPENAI_API_KEY is not defined. Exiting...'']]"
  by (simp add: startup_def Let_def)

subsection \<open>Failures of the pipeline for a request with a location\<close>

text \<open>
  For a request that passed the location check, an error of the provider is logged by
  \<^verbatim>\<open>promptFunc\<close> and, when it is an \<^verbatim>\<open>Error\<close>, by the handler (its message), and the
  client receives 500 with the fixed body, which carries nothing of the error.
\<close>

lemma provider_error_gives_500:
  "body_location (body req) = Inr location \<Longrightarrow> truthy location \<Longrightarrow>
   llm (model srv) (rendered_prompt rt location) = Inl e \<Longrightarrow>
   client_response rt llm srv req = Some (500, internal_error_body) \<and>
   events rt llm srv req =
     [Invoke (model srv) (rendered_prompt rt location), ConsoleError [Text ''Error:'', Thrown e]]
     @ catch_log e @ [Send 500 internal_error_body]"
proof -
  assume loc: "body_location (body req) = Inr location" and t: "truthy location"
    and "llm (model srv) (rendered_prompt rt location) = Inl e"
  then have "pipeline_result rt llm srv location = Inl e"
    by (simp add: pipeline_result_def)
  with loc t show ?thesis
    by (simp add: response_truthy_throws events_truthy_throws)
qed

text \<open>
  For such a request, a string completion that \<^verbatim>\<open>JSON.parse\<close> rejects ends in the same
  500, after the one call of the model.
\<close>

lemma unparseable_gives_500:
  "body_location (body req) = Inr location \<Longrightarrow> truthy location \<Longrightarrow>
   llm (model srv) (rendered_prompt rt location) = Inr (Str s) \<Longrightarrow>
   JSON_parse rt s = Inl e \<Longrightarrow>
   client_response rt llm srv req = Some (500, internal_error_body) \<and>
   invocations (events rt llm srv req) = [(model srv, rendered_prompt rt location)]"
proof -
  assume loc: "body_location (body req) = Inr location" and t: "truthy location"
    and "llm (model srv) (rendered_prompt rt location) = Inr (Str s)"
    and "JSON_parse rt s = Inl e"
  then have "pipeline_result rt llm srv location = Inl e"
    by (simp add: pipeline_result_def)
  with loc t show ?thesis
    by (simp add: response_truthy_throws invocations_events)
qed

text \<open>
  For such a request, a thrown value that is not an \<^verbatim>\<open>Error\<close> gives the same 500, and the
  only line logged is the one of \<^verbatim>\<open>promptFunc\<close>: the handler's \<^verbatim>\<open>catch\<close> logs nothing.
\<close>

lemma non_error_not_logged_by_handler:
  "body_location (body req) = Inr location \<Longrightarrow> truthy location \<Longrightarrow>
   pipeline_result rt llm srv location = Inl (OtherThrown x) \<Longrightarrow>
   client_response rt llm srv req = Some (500, internal_error_body) \<and>
   errors_logged (events rt llm srv req) = [[Text ''Error:'', Thrown (OtherThrown x)]]"
  by (simp add: response_truthy_throws events_truthy_throws catch_log_def)

subsection \<open>What the pipeline returns and throws\<close>

text \<open>
  \<^verbatim>\<open>promptFunc\<close> returns a value exactly when the provider returned a completion that is
  that value and not a string, or a string that \<^verbatim>\<open>JSON.parse\<close> turned into that value;
  whatever it throws was thrown by the provider or by \<^verbatim>\<open>JSON.parse\<close>.
\<close>

lemma pipeline_result_returns_iff:
  "pipeline_result rt llm srv location = Inr v \<longleftrightarrow>
   (\<exists>raw. llm (model srv) (rendered_prompt rt location) = Inr raw \<and>
          (case raw of Str s \<Rightarrow> JSON_parse rt s = Inr v | _ \<Rightarrow> v = raw))"
  by (auto simp: pipeline_result_def split: sum.splits jsval.splits)

lemma pipeline_result_throws:
  "pipeline_result rt llm srv location = Inl e \<Longrightarrow>
   llm (model srv) (rendered_prompt rt location) = Inl e \<or>
   (\<exists>s. llm (model srv) (rendered_prompt rt location) = Inr (Str s) \<and> JSON_parse rt s = Inl e)"
  by (auto simp: pipeline_result_def split: sum.splits jsval.splits)

section \<open>The claims\<close>

subsection \<open>C1: a missing location\<close>

text \<open>
  C1. For a request whose body has no \<^verbatim>\<open>location\<close> (or an empty one) the client does
  receive status 400 with the message asking for a location, but the handler does not
  stop there: the model is called once all the same, with the prompt rendered for the
  absent (or empty) location. The claimed "zero calls to the Completion Client" does not
  hold of the code.
\<close>

theorem C1_missing_location_still_calls_model:
  "client_response rt llm srv no_location = Some (400, missing_location_body) \<and>
   invocations (events rt llm srv no_location) = [(model srv, rendered_prompt rt Undefined)] \<and>
   client_response rt llm srv empty_location = Some (400, missing_location_body) \<and>
   invocations (events rt llm srv empty_location) = [(model srv, rendered_prompt rt (Str []))]"
proof -
  have a: "body_location (body no_location) = Inr Undefined"
    by (simp add: no_location_def)
  have b: "body_location (body empty_location) = Inr (Str [])"
    by (simp add: empty_location_def)
  show ?thesis
    using response_falsy [OF a, of rt llm srv] response_falsy [OF b, of rt llm srv]
    by (simp add: invocations_events a b)
qed

subsection \<open>C2: validation and repair\<close>

text \<open>
  C2, as stated, fails. For the location \<^verbatim>\<open>Seattle\<close> and a provider that answers \<^verbatim>\<open>[]\<close>,
  the parsed output is an empty array, which the output schema does not accept; yet the
  model is called once only (there is no repair call), and the client receives 200 with
  the array, not a repaired forecast and not a 500.
\<close>

theorem C2_counterexample:
  "pipeline_result sample_runtime (llm_returns (Str ''[]'')) sample_server (Str ''Seattle'') = Inr (Arr []) \<and>
   \<not> satisfies parser (Arr []) \<and>
   invocations (events sample_runtime (llm_returns (Str ''[]'')) sample_server seattle) =
     [(sample_model, rendered_prompt sample_runtime (Str ''Seattle''))] \<and>
   client_response sample_runtime (llm_returns (Str ''[]'')) sample_server seattle =
     Some (200, Obj [(''result'', Arr [])])"
proof -
  have loc: "body_location (body seattle) = Inr (Str ''Seattle'')"
    by (simp add: seattle_def)
  have res: "pipeline_result sample_runtime (llm_returns (Str ''[]'')) sample_server (Str ''Seattle'')
      = Inr (Arr [])"
    by (simp add: pipeline_result_def llm_returns_def sample_runtime_def sample_parse_def)
  have m: "model sample_server = sample_model"
    by (simp add: sample_server_def)
  show ?thesis
    using response_truthy_returns [OF loc _ res]
    by (simp add: res invocations_events loc m)
qed

text \<open>
  C2, amended. No request calls the model more than once, so there is never a repair
  call. For a request with a non-empty location: the model is called exactly once; a
  completion whose value (a completion that is not a string, or what \<^verbatim>\<open>JSON.parse\<close> made
  of a string completion) the output schema does not accept is neither repaired nor
  refused, the client receives 200 with that value; a string completion that
  \<^verbatim>\<open>JSON.parse\<close> rejects ends in 500 with the fixed body; and whatever \<^verbatim>\<open>promptFunc\<close>
  throws is the provider's error or the one of \<^verbatim>\<open>JSON.parse\<close>, never an error of
  validation.
\<close>

theorem C2_no_validation_no_repair:
  "length (invocations (events rt llm srv req)) \<le> 1 \<and>
   (body_location (body req) = Inr location \<longrightarrow> truthy location \<longrightarrow>
      invocations (events rt llm srv req) = [(model srv, rendered_prompt rt location)]) \<and>
   (body_location (body req) = Inr location \<longrightarrow> truthy location \<longrightarrow>
    llm (model srv) (rendered_prompt rt location) = Inr raw \<longrightarrow>
    (case raw of Str s \<Rightarrow> JSON_parse rt s | _ \<Rightarrow> Inr raw) = Inr v \<longrightarrow>
    \<not> satisfies parser v \<longrightarrow>
      client_response rt llm srv req = Some (200, Obj [(''result'', v)])) \<and>
   (body_location (body req) = Inr location \<longrightarrow> truthy location \<longrightarrow>
    llm (model srv) (rendered_prompt rt location) = Inr (Str s) \<longrightarrow> JSON_parse rt s = Inl e \<longrightarrow>
      client_response rt llm srv req = Some (500, internal_error_body)) \<and>
   (body_location (body req) = Inr location \<longrightarrow> truthy location \<longrightarrow>
    fst (promptFunc rt llm srv location fresh) = Inl e' \<longrightarrow>
      llm (model srv) (rendered_prompt rt location) = Inl e' \<or>
      (\<exists>t. llm (model srv) (rendered_prompt rt location) = Inr (Str t) \<and> JSON_parse rt t = Inl e'))"
proof -
  have calls: "length (invocations (events rt llm srv req)) \<le> 1"
    by (simp add: invocations_events split: sum.splits)
  have once: "body_location (body req) = Inr location \<longrightarrow> truthy location \<longrightarrow>
      invocations (events rt llm srv req) = [(model srv, rendered_prompt rt location)]"
    by (simp add: invocations_events)
  have forwarded: "body_location (body req) = Inr location \<longrightarrow> truthy location \<longrightarrow>
    llm (model srv) (rendered_prompt rt location) = Inr raw \<longrightarrow>
    (case raw of Str s \<Rightarrow> JSON_parse rt s | _ \<Rightarrow> Inr raw) = Inr v \<longrightarrow>
    \<not> satisfies parser v \<longrightarrow>
      client_response rt llm srv req = Some (200, Obj [(''result'', v)])"
  proof (intro impI)
    assume loc: "body_location (body req) = Inr location" and t: "truthy location"
      and "llm (model srv) (rendered_prompt rt location) = Inr raw"
      and "(case raw of Str s \<Rightarrow> JSON_parse rt s | _ \<Rightarrow> Inr raw) = Inr v"
    then have "pipeline_result rt llm srv location = Inr v"
      by (simp add: pipeline_result_def)
    with loc t show "client_response rt llm srv req = Some (200, Obj [(''result'', v)])"
      by (rule response_truthy_returns)
  qed
  have unparseable: "body_location (body req) = Inr location \<longrightarrow> truthy location \<longrightarrow>
    llm (model srv) (rendered_prompt rt location) = Inr (Str s) \<longrightarrow> JSON_parse rt s = Inl e \<longrightarrow>
      client_response rt llm srv req = Some (500, internal_error_body)"
    using unparseable_gives_500 [of req location llm srv rt s e] by simp
  have errors: "body_location (body req) = Inr location \<longrightarrow> truthy location \<longrightarrow>
    fst (promptFunc rt llm srv location fresh) = Inl e' \<longrightarrow>
      llm (model srv) (rendered_prompt rt location) = Inl e' \<or>
      (\<exists>t. llm (model srv) (rendered_prompt rt location) = Inr (Str t) \<and> JSON_parse rt t = Inl e')"
    using pipeline_result_throws [of rt llm srv location e'] by (simp add: fst_promptFunc)
  from calls once forwarded unparseable errors show ?thesis by blast
qed

text \<open>
  The theorem at the location \<^verbatim>\<open>Seattle\<close>, once with the completion \<^verbatim>\<open>{}\<close>, which parses
  and which the schema does not accept, once with a completion that is not JSON.
\<close>

theorem C2_witness:
  "JSON_parse sample_runtime ''{}'' = Inr (Obj []) \<and> \<not> satisfies parser (Obj []) \<and>
   invocations (events sample_runtime (llm_returns (Str ''{}'')) sample_server seattle) =
     [(sample_model, rendered_prompt sample_runtime (Str ''Seattle''))] \<and>
   client_response sample_runtime (llm_returns (Str ''{}'')) sample_server seattle =
     Some (200, Obj [(''result'', Obj [])]) \<and>
   JSON_parse sample_runtime ''Sunny all week!'' = Inl (ErrorObj ''Unexpected token S in JSON at position 0'') \<and>
   fst (promptFunc sample_runtime (llm_returns (Str ''Sunny all week!'')) sample_server (Str ''Seattle'') fresh) =
     Inl (ErrorObj ''Unexpected token S in JSON at position 0'') \<and>
   client_response sample_runtime (llm_returns (Str ''Sunny all week!'')) sample_server seattle =
     Some (500, internal_error_body)"
proof -
  have loc: "body_location (body seattle) = Inr (Str ''Seattle'')"
    by (simp add: seattle_def)
  have m: "model sample_server = sample_model"
    by (simp add: sample_server_def)
  have p1: "JSON_parse sample_runtime ''{}'' = Inr (Obj [])"
    by (simp add: sample_runtime_def sample_parse_def)
  have p2: "JSON_parse sample_runtime ''Sunny all week!'' =
      Inl (ErrorObj ''Unexpected token S in JSON at position 0'')"
    by (simp add: sample_runtime_def sample_parse_def forecast_text_def)
  have s: "\<not> satisfies parser (Obj [])"
    by (simp add: parser_def)
  have raw1: "llm_returns (Str ''{}'') cfg p = Inr (Str ''{}'')" for cfg p
    by (simp add: llm_returns_def)
  have raw2: "llm_returns (Str ''Sunny all week!'') cfg p = Inr (Str ''Sunny all week!'')" for cfg p
    by (simp add: llm_returns_def)
  have thrown: "fst (promptFunc sample_runtime (llm_returns (Str ''Sunny all week!'')) sample_server
      (Str ''Seattle'') fresh) = Inl (ErrorObj ''Unexpected token S in JSON at position 0'')"
    by (simp add: fst_promptFunc pipeline_result_def raw2 p2)
  show ?thesis
    using C2_no_validation_no_repair [of sample_runtime "llm_returns (Str ''{}'')" sample_server
        seattle "Str ''Seattle''" "Str ''{}''" "Obj []" "''{}''" "ErrorObj []" "ErrorObj []"]
      C2_no_validation_no_repair [of sample_runtime "llm_returns (Str ''Sunny all week!'')"
        sample_server seattle "Str ''Seattle''" "Str ''Sunny all week!''" "Obj []"
        "''Sunny all week!''" "ErrorObj ''Unexpected token S in JSON at position 0''"
        "ErrorObj ''Unexpected token S in JSON at position 0''"]
    by (simp add: loc m p1 p2 thrown raw1 raw2 parser_def)
qed

subsection \<open>C3: the shape of a successful result\<close>

text \<open>
  C3, as stated, fails. For the location \<^verbatim>\<open>Seattle\<close> and a provider that answers \<^verbatim>\<open>{}\<close>,
  the pipeline succeeds and the client receives 200 with an empty object as the result:
  its keys are neither the five keys of the schema nor the fifteen of the prompt.
\<close>

theorem C3_counterexample:
  "fst (promptFunc sample_runtime (llm_returns (Str ''{}'')) sample_server (Str ''Seattle'') fresh) = Inr (Obj []) \<and>
   client_response sample_runtime (llm_returns (Str ''{}'')) sample_server seattle =
     Some (200, Obj [(''result'', Obj [])]) \<and>
   \<not> has_exactly_keys five_keys (Obj []) \<and> \<not> has_exactly_keys full_keys (Obj [])"
proof -
  have loc: "body_location (body seattle) = Inr (Str ''Seattle'')"
    by (simp add: seattle_def)
  have res: "pipeline_result sample_runtime (llm_returns (Str ''{}'')) sample_server (Str ''Seattle'')
      = Inr (Obj [])"
    by (simp add: pipeline_result_def llm_returns_def sample_runtime_def sample_parse_def)
  show ?thesis
    using response_truthy_returns [OF loc _ res]
    by (simp add: res fst_promptFunc five_keys_def full_keys_def parser_def)
qed

text \<open>
  C3, amended. For every request with a non-empty location, the pipeline succeeds with a
  value exactly when the provider returned a completion that is that value and not a
  string, or a string that \<^verbatim>\<open>JSON.parse\<close> turned into that value: nothing about its keys
  or the types of its values is checked. The client then receives 200 with exactly that
  value under \<^verbatim>\<open>result\<close>.
\<close>

theorem C3_success_returns_unchecked_value:
  "body_location (body req) = Inr location \<Longrightarrow> truthy location \<Longrightarrow>
   (fst (promptFunc rt llm srv location fresh) = Inr v \<longleftrightarrow>
      (\<exists>raw. llm (model srv) (rendered_prompt rt location) = Inr raw \<and>
             (case raw of Str s \<Rightarrow> JSON_parse rt s = Inr v | _ \<Rightarrow> v = raw))) \<and>
   (fst (promptFunc rt llm srv location fresh) = Inr v \<longrightarrow>
      client_response rt llm srv req = Some (200, Obj [(''result'', v)]))"
  by (simp add: fst_promptFunc response_truthy_returns pipeline_result_returns_iff)

text \<open>
  The theorem at the location \<^verbatim>\<open>Seattle\<close> and a completion that is a forecast with the five
  keys: here the result does have the shape of the schema, because the model gave it.
\<close>

theorem C3_witness:
  "body_location (body seattle) = Inr (Str ''Seattle'') \<and>
   llm_returns (Str forecast_text) (model sample_server) (rendered_prompt sample_runtime (Str ''Seattle''))
     = Inr (Str forecast_text) \<and>
   JSON_parse sample_runtime forecast_text = Inr forecast_value \<and>
   fst (promptFunc sample_runtime (llm_returns (Str forecast_text)) sample_server (Str ''Seattle'') fresh)
     = Inr forecast_value \<and>
   has_exactly_keys five_keys forecast_value \<and>
   client_response sample_runtime (llm_returns (Str forecast_text)) sample_server seattle =
     Some (200, Obj [(''result'', forecast_value)])"
proof -
  have loc: "body_location (body seattle) = Inr (Str ''Seattle'')"
    by (simp add: seattle_def)
  have t: "truthy (Str ''Seattle'')" by simp
  have raw: "llm_returns (Str forecast_text) (model sample_server)
      (rendered_prompt sample_runtime (Str ''Seattle'')) = Inr (Str forecast_text)"
    by (simp add: llm_returns_def)
  have p: "JSON_parse sample_runtime forecast_text = Inr forecast_value"
    by (simp add: sample_runtime_def sample_parse_def forecast_text_def)
  have keys: "has_exactly_keys five_keys forecast_value"
    by (simp add: five_keys_def parser_def forecast_value_def)
  have ex: "\<exists>r. llm_returns (Str forecast_text) (model sample_server)
      (rendered_prompt sample_runtime (Str ''Seattle'')) = Inr r \<and>
      (case r of Str s \<Rightarrow> JSON_parse sample_runtime s = Inr forecast_value | _ \<Rightarrow> forecast_value = r)"
    using raw p by simp
  from C3_success_returns_unchecked_value [OF loc t, of sample_runtime
      "llm_returns (Str forecast_text)" sample_server forecast_value] ex loc raw p keys
  show ?thesis by simp
qed

subsection \<open>C4: the prompt\<close>

text \<open>
  C4. The prompt rendered for the location \<^verbatim>\<open>Seattle\<close> is the template with the location
  in its one slot and nothing else: whatever the format instructions are, they are not
  part of it, since the template has no slot for the partial variable that carries them.
\<close>

theorem C4_format_instructions_not_rendered:
  \<open>format rt (promptTemplate fi) [(''location'', Str ''Seattle'')] =
     Inr ''You are a sports announcer. Provide an exciting and energetic play-by-play of the weather forecast for Seattle. Make it sound like a thrilling sports commentary! Return the forcast as a JSON object with each day forecast as a property. The keys should be "date-day1", "day-of-the-week-day1", "day1", "date-day2", "day-of-the-week-day2", "day2", "date-day3", "day-of-the-week-day3", "day3", "date-day4", "day-of-the-week-day4", "day4", "date-day5", "day-of-the-week-day5", "day5". The JSON should be properly formatted. The first day should be today.''\<close>
  by (simp add: format_prompt rendered_prompt_def stringValue_def prompt_prefix_def
        prompt_suffix_def)

subsection \<open>C5: an error of the provider\<close>

text \<open>
  C5. For a request with a non-empty location the code does what the claim says
  (\<open>provider_error_gives_500\<close>). For a request without a location it does not: the 400
  response has already left when the provider throws, the error is logged twice, and the
  \<^verbatim>\<open>res.status(500).json\<close> of the \<^verbatim>\<open>catch\<close> block throws in its turn. The client has
  status 400, not 500, and the handler's promise is rejected.
\<close>

theorem C5_provider_error_after_400:
  "events rt (llm_fails (ErrorObj ''429 Too Many Requests'')) srv no_location =
     [Send 400 missing_location_body,
      Invoke (model srv) (rendered_prompt rt Undefined),
      ConsoleError [Text ''Error:'', Thrown (ErrorObj ''429 Too Many Requests'')],
      ConsoleError [Text ''Error:'', Text ''429 Too Many Requests'']] \<and>
   client_response rt (llm_fails (ErrorObj ''429 Too Many Requests'')) srv no_location =
     Some (400, missing_location_body) \<and>
   fst (forecast rt (llm_fails (ErrorObj ''429 Too Many Requests'')) srv no_location) =
     Inl (ErrorObj headers_sent_message)"
proof -
  have loc: "body_location (body no_location) = Inr Undefined"
    by (simp add: no_location_def)
  have res: "pipeline_result rt (llm_fails (ErrorObj ''429 Too Many Requests'')) srv Undefined
      = Inl (ErrorObj ''429 Too Many Requests'')"
    by (simp add: pipeline_result_def llm_fails_def)
  show ?thesis
    using events_falsy_throws [OF loc _ res] response_falsy [OF loc, of rt _ srv]
      rejected_falsy [OF loc, of rt _ srv]
    by (simp add: catch_log_def)
qed

subsection \<open>C6 and C7: start-up and the model configuration\<close>

text \<open>
  C6. If \<^verbatim>\<open>OPENAI_API_KEY\<close> is absent from the environment, start-up logs the error and
  exits with code 1: the run of the process has that exit code, that one log line, and
  serves no request. Conversely a process that listens has a non-empty key in its
  environment, and that key is the one of its model configuration.
\<close>

theorem C6_missing_key_exits:
  "(OPENAI_API_KEY e = None \<longrightarrow>
      startup rt e = Exited 1 [ConsoleError [Text ''OPENAI_API_KEY is not defined. Exiting...'']] \<and>
      process_run rt e arrivals =
        (Some 1, [ConsoleError [Text ''OPENAI_API_KEY is not defined. Exiting...'']], [])) \<and>
   (startup rt e = Listening srv log \<longrightarrow>
      OPENAI_API_KEY e = Some (openAIApiKey (model srv)) \<and> openAIApiKey (model srv) \<noteq> [])"
  using startup_listening [of rt e srv log]
  by (simp add: startup_no_key process_run_def)

text \<open>
  The theorem at an environment without the key, and at one with the key
  \<^verbatim>\<open>sk-test\<close> and no port.
\<close>

theorem C6_witness:
  "OPENAI_API_KEY no_key_env = None \<and>
   process_run sample_runtime no_key_env [(llm_returns (Str forecast_text), seattle)] =
     (Some 1, [ConsoleError [Text ''OPENAI_API_KEY is not defined. Exiting...'']], []) \<and>
   startup sample_runtime sample_env =
     Listening sample_server [ConsoleLog [Text ''Server is running on http://localhost:3001'']] \<and>
   OPENAI_API_KEY sample_env = Some ''sk-test''"
  using C6_missing_key_exits [of no_key_env sample_runtime "[(llm_returns (Str forecast_text), seattle)]"]
    C6_missing_key_exits [of sample_env sample_runtime "[]" sample_server
      "[ConsoleLog [Text ''Server is running on http://localhost:3001'']]"]
  by (simp add: no_key_env_def sample_env_def startup_def sample_runtime_def sample_server_def
        sample_model_def digit_char_def)

text \<open>
  C7. In any run of the process, every call of the model made for any request served
  carries one and the same configuration, the one built at start-up: temperature 0, the
  model name \<^verbatim>\<open>gpt-3.5-turbo\<close>, and the key of the environment.
\<close>

theorem C7_one_fixed_model_configuration:
  "tr \<in> set (snd (snd (process_run rt e arrivals))) \<Longrightarrow>
   (cfg, p) \<in> set (invocations tr) \<Longrightarrow>
   temperature cfg = 0 \<and> modelName cfg = ''gpt-3.5-turbo'' \<and>
   OPENAI_API_KEY e = Some (openAIApiKey cfg) \<and>
   (\<exists>srv log. startup rt e = Listening srv log \<and> cfg = model srv)"
proof (cases "startup rt e")
  case (Exited code log)
  assume "tr \<in> set (snd (snd (process_run rt e arrivals)))"
  with Exited show ?thesis by (simp add: process_run_def)
next
  case (Listening srv log)
  assume "tr \<in> set (snd (snd (process_run rt e arrivals)))"
    and inv: "(cfg, p) \<in> set (invocations tr)"
  with Listening obtain llm req where "tr = events rt llm srv req"
    by (auto simp: process_run_def)
  with inv have "cfg = model srv"
    by (auto simp: invocations_events split: sum.splits)
  with startup_listening [OF Listening] Listening show ?thesis by simp
qed

text \<open>
  The theorem at a run that serves two requests for Seattle, the second of which meets a
  provider that throws.
\<close>

theorem C7_witness:
  "events sample_runtime (llm_fails (ErrorObj ''timeout'')) sample_server seattle
     \<in> set (snd (snd (process_run sample_runtime sample_env
          [(llm_returns (Str forecast_text), seattle), (llm_fails (ErrorObj ''timeout''), seattle)]))) \<and>
   (sample_model, rendered_prompt sample_runtime (Str ''Seattle''))
     \<in> set (invocations (events sample_runtime (llm_fails (ErrorObj ''timeout'')) sample_server seattle)) \<and>
   temperature sample_model = 0 \<and> modelName sample_model = ''gpt-3.5-turbo'' \<and>
   OPENAI_API_KEY sample_env = Some (openAIApiKey sample_model)"
proof -
  have served:
    "events sample_runtime (llm_fails (ErrorObj ''timeout'')) sample_server seattle
       \<in> set (snd (snd (process_run sample_runtime sample_env
            [(llm_returns (Str forecast_text), seattle), (llm_fails (ErrorObj ''timeout''), seattle)])))"
    by (simp add: process_run_def startup_def sample_env_def sample_runtime_def
          sample_server_def sample_model_def)
  have called:
    "(sample_model, rendered_prompt sample_runtime (Str ''Seattle''))
       \<in> set (invocations (events sample_runtime (llm_fails (ErrorObj ''timeout'')) sample_server seattle))"
    by (simp add: invocations_events seattle_def sample_server_def)
  from C7_one_fixed_model_configuration [OF served called] served called
  show ?thesis by simp
qed

subsection \<open>C8: a completion that is not JSON\<close>

text \<open>
  C8. For a request with a non-empty location the code does what the claim says
  (\<open>unparseable_gives_500\<close>: one call of the model, no repair, 500). For a request with
  an empty location it does not: \<^verbatim>\<open>JSON.parse\<close> throws inside \<^verbatim>\<open>promptFunc\<close> and the error
  reaches the \<^verbatim>\<open>catch\<close> block, but the client already has the 400 response, and the
  attempt to send the 500 throws.
\<close>

theorem C8_unparseable_after_400:
  "pipeline_result sample_runtime (llm_returns (Str ''Sunny all week!'')) srv (Str []) =
     Inl (ErrorObj ''Unexpected token S in JSON at position 0'') \<and>
   client_response sample_runtime (llm_returns (Str ''Sunny all week!'')) srv empty_location =
     Some (400, missing_location_body) \<and>
   fst (forecast sample_runtime (llm_returns (Str ''Sunny all week!'')) srv empty_location) =
     Inl (ErrorObj headers_sent_message)"
proof -
  have loc: "body_location (body empty_location) = Inr (Str [])"
    by (simp add: empty_location_def)
  show ?thesis
    using response_falsy [OF loc, of sample_runtime _ srv]
      rejected_falsy [OF loc, of sample_runtime _ srv]
    by (simp add: pipeline_result_def llm_returns_def sample_runtime_def sample_parse_def
          forecast_text_def)
qed

subsection \<open>C9: the success path\<close>

text \<open>
  C9. On the success path, that is for a request that passed the location check and
  whose completion \<^verbatim>\<open>promptFunc\<close> could return, the client receives 200 with the value
  under \<^verbatim>\<open>result\<close> and nothing is validated: a completion that is not a string is
  returned as it is, and a string completion is returned as whatever \<^verbatim>\<open>JSON.parse\<close>
  made of it, of any shape.
\<close>

theorem C9_parsed_output_returned_verbatim:
  "body_location (body req) = Inr location \<Longrightarrow> truthy location \<Longrightarrow>
   llm (model srv) (rendered_prompt rt location) = Inr raw \<Longrightarrow>
   (\<not> is_Str raw \<longrightarrow>
      client_response rt llm srv req = Some (200, Obj [(''result'', raw)])) \<and>
   (raw = Str s \<longrightarrow> JSON_parse rt s = Inr v \<longrightarrow>
      client_response rt llm srv req = Some (200, Obj [(''result'', v)]))"
proof -
  assume loc: "body_location (body req) = Inr location" and t: "truthy location"
    and raw: "llm (model srv) (rendered_prompt rt location) = Inr raw"
  have a: "\<not> is_Str raw \<Longrightarrow> pipeline_result rt llm srv location = Inr raw"
    using raw by (cases raw) (simp_all add: pipeline_result_def)
  have b: "raw = Str s \<Longrightarrow> JSON_parse rt s = Inr v \<Longrightarrow> pipeline_result rt llm srv location = Inr v"
    using raw by (simp add: pipeline_result_def)
  show ?thesis
    using response_truthy_returns [OF loc t a] response_truthy_returns [OF loc t b]
    by blast
qed

text \<open>
  The theorem at the location \<^verbatim>\<open>Seattle\<close>, once with a completion that is an array and
  not a string, once with the text \<^verbatim>\<open>[]\<close>.
\<close>

theorem C9_witness:
  "client_response sample_runtime (llm_returns (Arr [Num 1, Null])) sample_server seattle =
     Some (200, Obj [(''result'', Arr [Num 1, Null])]) \<and>
   JSON_parse sample_runtime ''[]'' = Inr (Arr []) \<and>
   client_response sample_runtime (llm_returns (Str ''[]'')) sample_server seattle =
     Some (200, Obj [(''result'', Arr [])])"
  using C9_parsed_output_returned_verbatim [of seattle "Str ''Seattle''"
      "llm_returns (Arr [Num 1, Null])" sample_server sample_runtime "Arr [Num 1, Null]"]
    C9_parsed_output_returned_verbatim [of seattle "Str ''Seattle''"
      "llm_returns (Str ''[]'')" sample_server sample_runtime "Str ''[]''" "''[]''" "Arr []"]
  by (simp add: seattle_def llm_returns_def sample_runtime_def sample_parse_def)

subsection \<open>C10: a thrown value that is not an Error\<close>

text \<open>
  C10. For a request with a non-empty location the code does what the claim says
  (\<open>non_error_not_logged_by_handler\<close>). For a request without a location it does not:
  the handler's \<^verbatim>\<open>catch\<close> logs nothing, as claimed, but the client already has the 400
  response and the attempt to send the 500 throws.
\<close>

theorem C10_non_error_after_400:
  "events rt (llm_fails (OtherThrown (Str ''quota''))) srv no_location =
     [Send 400 missing_location_body,
      Invoke (model srv) (rendered_prompt rt Undefined),
      ConsoleError [Text ''Error:'', Thrown (OtherThrown (Str ''quota''))]] \<and>
   client_response rt (llm_fails (OtherThrown (Str ''quota''))) srv no_location =
     Some (400, missing_location_body) \<and>
   fst (forecast rt (llm_fails (OtherThrown (Str ''quota''))) srv no_location) =
     Inl (ErrorObj headers_sent_message)"
proof -
  have loc: "body_location (body no_location) = Inr Undefined"
    by (simp add: no_location_def)
  have res: "pipeline_result rt (llm_fails (OtherThrown (Str ''quota''))) srv Undefined
      = Inl (OtherThrown (Str ''quota''))"
    by (simp add: pipeline_result_def llm_fails_def)
  show ?thesis
    using events_falsy_throws [OF loc _ res] response_falsy [OF loc, of rt _ srv]
      rejected_falsy [OF loc, of rt _ srv]
    by (simp add: catch_log_def)
qed

end
